theory Spec2Isabelle
  imports Complex_Main "HOL-Library.Sublist" "HOL-Library.Multiset"
    "HOL-Library.Char_ord" "HOL-Library.List_Lexorder"
begin

section \<open>JavaScript strings and numbers\<close>

text \<open>
  The front end is JavaScript (\<^verbatim>\<open>frontend/src/App.js\<close>). A JavaScript string is modelled
  as a \<^typ>\<open>string\<close> whose characters are the code units U+0000 .. U+00FF (Latin-1); text
  outside that range is outside the model. A JavaScript number is its exact mathematical
  value, \<open>NaN\<close> or an infinity; the rounding of binary64 arithmetic is not modelled
  (the minute values of the timetable are small integers, which binary64 holds exactly).
\<close>

datatype js_num = NaN | NegInf | Fin rat | PosInf

fun js_neg :: "js_num \<Rightarrow> js_num" where
  "js_neg NaN = NaN"
| "js_neg NegInf = PosInf"
| "js_neg (Fin x) = Fin (- x)"
| "js_neg PosInf = NegInf"

text \<open>The operator \<^verbatim>\<open>a * b\<close> on numbers.\<close>

fun js_mul :: "js_num \<Rightarrow> js_num \<Rightarrow> js_num" where
  "js_mul NaN _ = NaN"
| "js_mul _ NaN = NaN"
| "js_mul (Fin x) (Fin y) = Fin (x * y)"
| "js_mul (Fin x) PosInf = (if x = 0 then NaN else if 0 < x then PosInf else NegInf)"
| "js_mul (Fin x) NegInf = (if x = 0 then NaN else if 0 < x then NegInf else PosInf)"
| "js_mul PosInf (Fin y) = (if y = 0 then NaN else if 0 < y then PosInf else NegInf)"
| "js_mul NegInf (Fin y) = (if y = 0 then NaN else if 0 < y then NegInf else PosInf)"
| "js_mul PosInf PosInf = PosInf"
| "js_mul PosInf NegInf = NegInf"
| "js_mul NegInf PosInf = NegInf"
| "js_mul NegInf NegInf = PosInf"

text \<open>The operator \<^verbatim>\<open>a + b\<close> on numbers.\<close>

fun js_add :: "js_num \<Rightarrow> js_num \<Rightarrow> js_num" where
  "js_add NaN _ = NaN"
| "js_add _ NaN = NaN"
| "js_add (Fin x) (Fin y) = Fin (x + y)"
| "js_add (Fin x) PosInf = PosInf"
| "js_add (Fin x) NegInf = NegInf"
| "js_add PosInf (Fin y) = PosInf"
| "js_add NegInf (Fin y) = NegInf"
| "js_add PosInf PosInf = PosInf"
| "js_add NegInf NegInf = NegInf"
| "js_add PosInf NegInf = NaN"
| "js_add NegInf PosInf = NaN"

text \<open>The comparison \<^verbatim>\<open>a < b\<close>; every comparison with \<open>NaN\<close> is false.\<close>

fun js_lt :: "js_num \<Rightarrow> js_num \<Rightarrow> bool" where
  "js_lt NaN _ = False"
| "js_lt _ NaN = False"
| "js_lt (Fin x) (Fin y) = (x < y)"
| "js_lt NegInf NegInf = False"
| "js_lt NegInf _ = True"
| "js_lt _ NegInf = False"
| "js_lt PosInf _ = False"
| "js_lt _ PosInf = True"

text \<open>The comparison \<^verbatim>\<open>a <= b\<close>.\<close>

fun js_le :: "js_num \<Rightarrow> js_num \<Rightarrow> bool" where
  "js_le NaN _ = False"
| "js_le _ NaN = False"
| "js_le (Fin x) (Fin y) = (x \<le> y)"
| "js_le NegInf _ = True"
| "js_le _ PosInf = True"
| "js_le PosInf _ = False"
| "js_le _ NegInf = False"

definition js_gt :: "js_num \<Rightarrow> js_num \<Rightarrow> bool" where
  "js_gt a b = js_lt b a"

definition js_ge :: "js_num \<Rightarrow> js_num \<Rightarrow> bool" where
  "js_ge a b = js_le b a"

subsection \<open>Characters\<close>

definition isWhiteSpace :: "char \<Rightarrow> bool" where
  \<comment> \<open>WhiteSpace and LineTerminator code points below U+0100: TAB, LF, VT, FF, CR, SP, NBSP.\<close>
  "isWhiteSpace c = (c \<in> set [CHR 0x09, CHR 0x0A, CHR 0x0B, CHR 0x0C, CHR 0x0D, CHR 0x20, CHR 0xA0])"

definition isDigit :: "char \<Rightarrow> bool" where
  "isDigit c = (c \<in> set ''0123456789'')"

definition isHexDigit :: "char \<Rightarrow> bool" where
  "isHexDigit c = (c \<in> set ''0123456789abcdefABCDEF'')"

definition digit_val :: "char \<Rightarrow> nat" where
  \<comment> \<open>the value of a digit of any base up to 16\<close>
  "digit_val c =
     (if c \<in> set ''0123456789'' then of_char c - 48
      else if c \<in> set ''abcdef'' then of_char c - 87
      else of_char c - 55)"

definition digits_value :: "nat \<Rightarrow> string \<Rightarrow> nat" where
  "digits_value base ds = foldl (\<lambda>acc c. acc * base + digit_val c) 0 ds"

text \<open>\<^verbatim>\<open>String.prototype.toLowerCase\<close> on Latin-1: A..Z and U+00C0..U+00DE (without the
  multiplication sign U+00D7) move up by 32; every other code unit is unchanged.\<close>

definition toLowerCase_char :: "char \<Rightarrow> char" where
  "toLowerCase_char c =
     (let n = (of_char c :: nat)
      in if (65 \<le> n \<and> n \<le> 90) \<or> (192 \<le> n \<and> n \<le> 222 \<and> n \<noteq> 215)
         then char_of (n + 32) else c)"

definition toLowerCase :: "string \<Rightarrow> string" where
  "toLowerCase s = map toLowerCase_char s"

text \<open>\<^verbatim>\<open>String.prototype.trim\<close>.\<close>

definition trim :: "string \<Rightarrow> string" where
  "trim s = rev (dropWhile isWhiteSpace (rev (dropWhile isWhiteSpace s)))"

text \<open>\<^verbatim>\<open>s.split(sep)\<close> for a separator of one character: the pieces between the
  separators, so never an empty list.\<close>

fun split :: "char \<Rightarrow> string \<Rightarrow> string list" where
  "split sep [] = [[]]"
| "split sep (c # cs) =
     (if c = sep then [] # split sep cs
      else (case split sep cs of [] \<Rightarrow> [[c]] | p # ps \<Rightarrow> (c # p) # ps))"

subsection \<open>\<^verbatim>\<open>Number(string)\<close>\<close>

text \<open>The StringToNumber grammar of ECMAScript: surrounding white space is dropped; the
  empty string is 0; otherwise the text must be a binary, octal or hexadecimal integer
  literal (unsigned), or an optionally signed decimal literal or \<open>Infinity\<close>; anything
  else is \<open>NaN\<close>.\<close>

definition decimalDigits :: "string \<Rightarrow> bool" where
  "decimalDigits ds = (ds \<noteq> [] \<and> list_all isDigit ds)"

definition parse_exponent :: "string \<Rightarrow> int option" where
  "parse_exponent s =
     (case s of
        [] \<Rightarrow> None
      | c # ds \<Rightarrow>
          if c = CHR ''+'' then (if decimalDigits ds then Some (int (digits_value 10 ds)) else None)
          else if c = CHR ''-'' then (if decimalDigits ds then Some (- int (digits_value 10 ds)) else None)
          else if decimalDigits s then Some (int (digits_value 10 s)) else None)"

definition parse_mantissa :: "string \<Rightarrow> rat option" where
  "parse_mantissa s =
     (let ip = takeWhile isDigit s; rest = dropWhile isDigit s
      in case rest of
           [] \<Rightarrow> if ip = [] then None else Some (of_nat (digits_value 10 ip))
         | c # fp \<Rightarrow>
             if c = CHR ''.'' \<and> list_all isDigit fp \<and> (ip \<noteq> [] \<or> fp \<noteq> [])
             then Some (of_nat (digits_value 10 (ip @ fp)) / 10 ^ length fp)
             else None)"

definition scale10 :: "rat \<Rightarrow> int \<Rightarrow> rat" where
  "scale10 v k = (if 0 \<le> k then v * 10 ^ nat k else v / 10 ^ nat (- k))"

definition StrUnsignedDecimalLiteral :: "string \<Rightarrow> js_num" where
  "StrUnsignedDecimalLiteral s =
     (if s = ''Infinity'' then PosInf
      else
        let notE = (\<lambda>c. c \<noteq> CHR ''e'' \<and> c \<noteq> CHR ''E'');
            m = takeWhile notE s; r = dropWhile notE s
        in case parse_mantissa m of
             None \<Rightarrow> NaN
           | Some v \<Rightarrow>
               (case r of
                  [] \<Rightarrow> Fin v
                | _ # ex \<Rightarrow>
                    (case parse_exponent ex of None \<Rightarrow> NaN | Some k \<Rightarrow> Fin (scale10 v k))))"

definition NonDecimalIntegerLiteral :: "string \<Rightarrow> nat option" where
  "NonDecimalIntegerLiteral s =
     (case s of
        z # p # ds \<Rightarrow>
          if z = CHR ''0'' \<and> ds \<noteq> [] then
            (if p \<in> set ''xX'' \<and> list_all isHexDigit ds then Some (digits_value 16 ds)
             else if p \<in> set ''oO'' \<and> list_all (\<lambda>c. c \<in> set ''01234567'') ds then Some (digits_value 8 ds)
             else if p \<in> set ''bB'' \<and> list_all (\<lambda>c. c \<in> set ''01'') ds then Some (digits_value 2 ds)
             else None)
          else None
      | _ \<Rightarrow> None)"

definition Number_js :: "string \<Rightarrow> js_num" where
  "Number_js s =
     (let t = trim s
      in if t = [] then Fin 0
         else case NonDecimalIntegerLiteral t of
                Some n \<Rightarrow> Fin (of_nat n)
              | None \<Rightarrow>
                  (case t of
                     [] \<Rightarrow> Fin 0
                   | c # u \<Rightarrow>
                       if c = CHR ''+'' then StrUnsignedDecimalLiteral u
                       else if c = CHR ''-'' then js_neg (StrUnsignedDecimalLiteral u)
                       else StrUnsignedDecimalLiteral t))"

text \<open>An array element that a destructuring pattern reads: \<open>undefined\<close> beyond the end
  of the array, and \<open>undefined\<close> is \<open>NaN\<close> in arithmetic.\<close>

definition element :: "js_num list \<Rightarrow> nat \<Rightarrow> js_num option" where
  "element xs i = (if i < length xs then Some (xs ! i) else None)"

definition ToNumber :: "js_num option \<Rightarrow> js_num" where
  "ToNumber v = (case v of None \<Rightarrow> NaN | Some x \<Rightarrow> x)"

section \<open>Time utilities\<close>

text \<open>The local clock reading of \<^verbatim>\<open>new Date()\<close>.\<close>

record js_date =
  getHours :: nat
  getMinutes :: nat

text \<open>
\<^verbatim>\<open>
const isCurrentClass = (startTime, endTime) => {
  const now = new Date();
  const currentTime = now.getHours() * 60 + now.getMinutes();
  const [startHour, startMin] = startTime.split(":").map(Number);
  const [endHour, endMin] = endTime.split(":").map(Number);
  const startMinutes = startHour * 60 + startMin;
  const endMinutes = endHour * 60 + endMin;
  return currentTime >= startMinutes && currentTime <= endMinutes;
};
\<close>
  The clock reading is an argument of the model.
\<close>

definition isCurrentClass :: "js_date \<Rightarrow> string \<Rightarrow> string \<Rightarrow> bool" where
  "isCurrentClass now startTime endTime =
     (let currentTime = Fin (of_nat (getHours now * 60 + getMinutes now));
          startParts = map Number_js (split CHR '':'' startTime);
          startHour = element startParts 0; startMin = element startParts 1;
          endParts = map Number_js (split CHR '':'' endTime);
          endHour = element endParts 0; endMin = element endParts 1;
          startMinutes = js_add (js_mul (ToNumber startHour) (Fin 60)) (ToNumber startMin);
          endMinutes = js_add (js_mul (ToNumber endHour) (Fin 60)) (ToNumber endMin)
      in js_ge currentTime startMinutes \<and> js_le currentTime endMinutes)"


text \<open>A well-formed \<^verbatim>\<open>"HH:MM"\<close> string, and the minutes since midnight that it denotes
  (the words of the specification, not the code).\<close>

definition is_hhmm :: "string \<Rightarrow> bool" where
  "is_hhmm s =
     (case s of
        [a, b, k, c, d] \<Rightarrow> isDigit a \<and> isDigit b \<and> k = CHR '':'' \<and> isDigit c \<and> isDigit d
      | _ \<Rightarrow> False)"

definition hhmm_minutes :: "string \<Rightarrow> nat" where
  "hhmm_minutes s =
     (case s of
        [a, b, k, c, d] \<Rightarrow> (10 * digit_val a + digit_val b) * 60 + (10 * digit_val c + digit_val d)
      | _ \<Rightarrow> 0)"

text \<open>The minute value that the code computes from a time string: the first two pieces
  between colons, read by \<^verbatim>\<open>Number\<close>, as \<open>hours * 60 + minutes\<close>.\<close>

definition parsed_minutes :: "string \<Rightarrow> js_num" where
  "parsed_minutes t =
     (let parts = map Number_js (split CHR '':'' t)
      in js_add (js_mul (ToNumber (element parts 0)) (Fin 60)) (ToNumber (element parts 1)))"

section \<open>Data model\<close>

text \<open>The documents are JSON; the fields that the derivations read are kept.\<close>

record TimeSlot =
  start_time :: string
  end_time :: string
  duration_minutes :: int

record CourseRef =
  course_name :: string
  course_code :: string
  instructor :: string
  credits :: int

record ScheduleEntry =
  day :: string
  time_slot :: TimeSlot
  room :: string
  entry_type :: string
  course :: CourseRef

record GroupDataset =
  group :: string
  entries :: "ScheduleEntry list"

text \<open>An entry for the examples: a day, a start and an end time, and a room.\<close>

definition sample_entry :: "string \<Rightarrow> string \<Rightarrow> string \<Rightarrow> string \<Rightarrow> ScheduleEntry" where
  "sample_entry d s e r =
     \<lparr>day = d, time_slot = \<lparr>start_time = s, end_time = e, duration_minutes = 60\<rparr>,
      room = r, entry_type = ''Lecture'',
      course = \<lparr>course_name = ''Algebra'', course_code = ''MA101'', instructor = ''Dr Rao'',
                credits = 4\<rparr>\<rparr>"

section \<open>Home page: today's classes and the next class\<close>

text \<open>
  The filter of \<^verbatim>\<open>fetchTodayClasses\<close>:
\<^verbatim>\<open>
  const todayClasses = groupData.entries.filter(entry =>
    entry.day.toLowerCase() === currentDay.toLowerCase()
  );
\<close>
\<close>

definition todaysClasses :: "GroupDataset \<Rightarrow> string \<Rightarrow> ScheduleEntry list" where
  "todaysClasses groupData currentDay =
     filter (\<lambda>entry. toLowerCase (day entry) = toLowerCase currentDay) (entries groupData)"

text \<open>Equality of two strings up to the case of their letters, character by character
  (the words of the specification): two characters agree when they are equal or are the
  upper-case and the lower-case form of one letter.\<close>

definition case_pair :: "char \<Rightarrow> char \<Rightarrow> bool" where
  "case_pair u l =
     (let n = (of_char u :: nat)
      in ((65 \<le> n \<and> n \<le> 90) \<or> (192 \<le> n \<and> n \<le> 222 \<and> n \<noteq> 215)) \<and> of_char l = n + 32)"

definition ci_char :: "char \<Rightarrow> char \<Rightarrow> bool" where
  "ci_char a b = (a = b \<or> case_pair a b \<or> case_pair b a)"

definition ci_equal :: "string \<Rightarrow> string \<Rightarrow> bool" where
  "ci_equal s t = list_all2 ci_char s t"

text \<open>
\<^verbatim>\<open>
  const nextClass = (() => {
    const now = new Date();
    const currentTime = now.getHours() * 60 + now.getMinutes();
    return todayClasses.find((classItem) => {
      const [startHour, startMin] = classItem.time_slot.start_time.split(":").map(Number);
      const startMinutes = startHour * 60 + startMin;
      return startMinutes > currentTime;
    });
  })();
\<close>
  \<^verbatim>\<open>find\<close> returns the first element that satisfies the test, or \<open>undefined\<close>
  (\<open>None\<close>).
\<close>

definition nextClass :: "js_date \<Rightarrow> ScheduleEntry list \<Rightarrow> ScheduleEntry option" where
  "nextClass now todayClasses =
     (let currentTime = Fin (of_nat (getHours now * 60 + getMinutes now))
      in find (\<lambda>classItem.
                 let parts = map Number_js (split CHR '':'' (start_time (time_slot classItem)));
                     startHour = element parts 0; startMin = element parts 1;
                     startMinutes = js_add (js_mul (ToNumber startHour) (Fin 60)) (ToNumber startMin)
                 in js_gt startMinutes currentTime)
           todayClasses)"

text \<open>The start of an entry in minutes since midnight, as the code computes it, and the
  clock reading in minutes.\<close>

definition start_minutes :: "ScheduleEntry \<Rightarrow> js_num" where
  "start_minutes e = parsed_minutes (start_time (time_slot e))"

definition clock_minutes :: "js_date \<Rightarrow> js_num" where
  "clock_minutes now = Fin (of_nat (getHours now * 60 + getMinutes now))"

section \<open>Weekly timetable\<close>

text \<open>\<^verbatim>\<open>a.localeCompare(b)\<close>: negative, zero or positive. The host compares by the collation
  of its locale; on strings built from digits and colons with the colons in the same
  places, such as all "HH:MM" strings, that is the comparison of the code units from left
  to right, which is what the model computes.\<close>

fun localeCompare :: "string \<Rightarrow> string \<Rightarrow> int" where
  "localeCompare [] [] = 0"
| "localeCompare [] (b # bs) = - 1"
| "localeCompare (a # as) [] = 1"
| "localeCompare (a # as) (b # bs) =
     (if (of_char a :: nat) < of_char b then - 1
      else if (of_char b :: nat) < of_char a then 1
      else localeCompare as bs)"

text \<open>\<^verbatim>\<open>Array.prototype.sort(comparefn)\<close> is stable, and for a consistent comparator its
  result is the one stable sorted arrangement of the array, whatever algorithm the engine
  runs; the model computes that arrangement by insertion.\<close>

fun insort_js :: "('a \<Rightarrow> 'a \<Rightarrow> int) \<Rightarrow> 'a \<Rightarrow> 'a list \<Rightarrow> 'a list" where
  "insort_js comparefn x [] = [x]"
| "insort_js comparefn x (y # ys) =
     (if comparefn x y \<le> 0 then x # y # ys else y # insort_js comparefn x ys)"

definition sort_js :: "('a \<Rightarrow> 'a \<Rightarrow> int) \<Rightarrow> 'a list \<Rightarrow> 'a list" where
  "sort_js comparefn xs = foldr (insort_js comparefn) xs []"

text \<open>
  The body of \<^verbatim>\<open>TimetablePage\<close> that builds the weekly view:
\<^verbatim>\<open>
  const days = ["Monday", "Tuesday", "Wednesday", "Thursday", "Friday"];
  ...
  {days.map((day) => {
    const dayClasses = timetableData.entries.filter((entry) => entry.day === day);
    return ( ... <h3>{day}</h3> <p>{dayClasses.length} classes</p>
      {dayClasses.length > 0 ? (
         dayClasses
           .sort((a, b) => a.time_slot.start_time.localeCompare(b.time_slot.start_time))
           .map((classItem, index) => ( ... ))
       ) : ( ... No classes scheduled ... )} );
  })}
\<close>
  A card of the view is the day name, the number shown as "n classes", and the rows.
\<close>

definition days :: "string list" where
  "days = [''Monday'', ''Tuesday'', ''Wednesday'', ''Thursday'', ''Friday'']"

record DayCard =
  card_day :: string
  card_count :: nat
  card_rows :: "ScheduleEntry list"

definition weeklyView :: "GroupDataset \<Rightarrow> DayCard list" where
  "weeklyView timetableData =
     map (\<lambda>d.
            let dayClasses = filter (\<lambda>entry. day entry = d) (entries timetableData)
            in \<lparr>card_day = d, card_count = length dayClasses,
                card_rows =
                  (if length dayClasses > 0
                   then sort_js (\<lambda>a b. localeCompare (start_time (time_slot a))
                                                       (start_time (time_slot b))) dayClasses
                   else [])\<rparr>)
         days"

section \<open>Application state and the fetch boundary\<close>

text \<open>What \<^verbatim>\<open>await fetch(url)\<close> followed by \<^verbatim>\<open>await response.json()\<close> can give: the
  request is rejected (network or transport failure), the body is not JSON (the second
  promise is rejected), or a JSON value arrives. The JSON value is \<open>null\<close>, or a value
  without the collection that the caller reads (\<^verbatim>\<open>entries\<close>, \<^verbatim>\<open>courses\<close>, \<^verbatim>\<open>data\<close>),
  or a document that has it. The status code of the response is never read by the code.
  Each fetch function is modelled as one step on the state, from the call to the last
  state setter; the setters write single cells, so what a function writes does not depend
  on the events that happen while it waits for its request.\<close>

datatype 'a json_doc = JsonNull | NoCollection | Dataset 'a

datatype 'a fetched = Rejected | NotJson | Json "'a json_doc"

datatype js_error = NetworkFailure | SyntaxError | TypeError

definition fetch_json :: "'a fetched \<Rightarrow> js_error + 'a json_doc" where
  "fetch_json response =
     (case response of
        Rejected \<Rightarrow> Inl NetworkFailure
      | NotJson \<Rightarrow> Inl SyntaxError
      | Json d \<Rightarrow> Inr d)"

text \<open>Reading the collection property of a parsed document: a \<open>TypeError\<close> on \<open>null\<close>,
  \<open>undefined\<close> (\<open>None\<close>) when the property is absent.\<close>

definition collection :: "'a json_doc \<Rightarrow> js_error + 'a option" where
  "collection d =
     (case d of
        JsonNull \<Rightarrow> Inl TypeError
      | NoCollection \<Rightarrow> Inr None
      | Dataset x \<Rightarrow> Inr (Some x))"

text \<open>Sequencing of statements that may throw, and \<^verbatim>\<open>try { body } catch (error) { handler }\<close>.\<close>

definition then_js :: "js_error + 'a \<Rightarrow> ('a \<Rightarrow> js_error + 'b) \<Rightarrow> js_error + 'b" where
  "then_js m f = (case m of Inl error \<Rightarrow> Inl error | Inr v \<Rightarrow> f v)"

definition try_catch :: "js_error + 'a \<Rightarrow> (js_error \<Rightarrow> js_error + 'a) \<Rightarrow> js_error + 'a" where
  "try_catch body handler = (case body of Inl error \<Rightarrow> handler error | Inr v \<Rightarrow> Inr v)"

record Course =
  catalog_code :: string
  catalog_name :: string
  catalog_groups :: "string list"

record SearchResult =
  result_group :: string
  result_entry :: ScheduleEntry

text \<open>The state of \<^verbatim>\<open>App\<close> (the \<^verbatim>\<open>useState\<close> cells; the dark-mode flag is left out).
  \<open>selectedGroup\<close> is \<open>null\<close> or a string, \<open>timetableData\<close> is \<open>null\<close> or the document
  that was fetched.\<close>

record AppState =
  currentPage :: string
  selectedGroup :: "string option"
  timetableData :: "GroupDataset json_doc"
  todayClasses :: "ScheduleEntry list"
  loading :: bool
  loadingToday :: bool
  loadingTimetable :: bool
  loadingCourses :: bool
  searchQuery :: string
  searchResults :: "SearchResult list"
  courses :: "Course list"

text \<open>A string or \<open>null\<close> used as a condition: \<open>null\<close> and the empty string are falsy.\<close>

definition truthy :: "string option \<Rightarrow> bool" where
  "truthy v = (case v of None \<Rightarrow> False | Some s \<Rightarrow> s \<noteq> [])"

text \<open>
\<^verbatim>\<open>
  const fetchTodayClasses = async () => {
    if (!selectedGroup) return;
    setLoadingToday(true);
    try {
      const response = await fetch(`${DATA_BASE_URL}/group_${selectedGroup.toLowerCase()}.json`);
      const groupData = await response.json();
      const currentDay = new Date().toLocaleDateString("en-US", { weekday: "long" });
      const todayClasses = groupData.entries.filter(entry =>
        entry.day.toLowerCase() === currentDay.toLowerCase());
      setTodayClasses(todayClasses || []);
    } catch (error) {
      console.error("Error fetching today's classes:", error);
      setTodayClasses([]);
    }
    setLoadingToday(false);
  };
\<close>
  The outcome of the request and the weekday name are arguments. A call of \<^verbatim>\<open>filter\<close> on
  \<open>undefined\<close> throws a \<open>TypeError\<close>.
\<close>

definition fetchTodayClasses ::
  "GroupDataset fetched \<Rightarrow> string \<Rightarrow> AppState \<Rightarrow> js_error + AppState" where
  "fetchTodayClasses response currentDay s =
     (if \<not> truthy (selectedGroup s) then Inr s
      else
        let s1 = s\<lparr>loadingToday := True\<rparr>
        in then_js
             (try_catch
                (then_js (fetch_json response) (\<lambda>groupData.
                 then_js (collection groupData) (\<lambda>entries_opt.
                   case entries_opt of
                     None \<Rightarrow> Inl TypeError
                   | Some G \<Rightarrow> Inr (s1\<lparr>todayClasses := todaysClasses G currentDay\<rparr>))))
                (\<lambda>error. Inr (s1\<lparr>todayClasses := []\<rparr>)))
             (\<lambda>s2. Inr (s2\<lparr>loadingToday := False\<rparr>)))"

text \<open>
\<^verbatim>\<open>
  const fetchTimetableData = async () => {
    if (!selectedGroup) return;
    setLoadingTimetable(true);
    try {
      const response = await fetch(`${DATA_BASE_URL}/group_${selectedGroup.toLowerCase()}.json`);
      const data = await response.json();
      setTimetableData(data);
    } catch (error) {
      console.error("Error fetching timetable:", error);
      setTimetableData(null);
    }
    setLoadingTimetable(false);
  };
\<close>
\<close>

definition fetchTimetableData :: "GroupDataset fetched \<Rightarrow> AppState \<Rightarrow> js_error + AppState" where
  "fetchTimetableData response s =
     (if \<not> truthy (selectedGroup s) then Inr s
      else
        let s1 = s\<lparr>loadingTimetable := True\<rparr>
        in then_js
             (try_catch
                (then_js (fetch_json response) (\<lambda>data. Inr (s1\<lparr>timetableData := data\<rparr>)))
                (\<lambda>error. Inr (s1\<lparr>timetableData := JsonNull\<rparr>)))
             (\<lambda>s2. Inr (s2\<lparr>loadingTimetable := False\<rparr>)))"

text \<open>
\<^verbatim>\<open>
  const fetchCourses = async () => {
    setLoadingCourses(true);
    try {
      const response = await fetch(`${DATA_BASE_URL}/courses.json`);
      const data = await response.json();
      setCourses(data.courses || []);
    } catch (error) {
      console.error("Error fetching courses:", error);
      setCourses([]);
    }
    setLoadingCourses(false);
  };
\<close>
\<close>

definition fetchCourses :: "Course list fetched \<Rightarrow> AppState \<Rightarrow> js_error + AppState" where
  "fetchCourses response s =
     (let s1 = s\<lparr>loadingCourses := True\<rparr>
      in then_js
           (try_catch
              (then_js (fetch_json response) (\<lambda>data.
               then_js (collection data) (\<lambda>courses_opt.
                 Inr (s1\<lparr>courses := (case courses_opt of None \<Rightarrow> [] | Some cs \<Rightarrow> cs)\<rparr>))))
              (\<lambda>error. Inr (s1\<lparr>courses := []\<rparr>)))
           (\<lambda>s2. Inr (s2\<lparr>loadingCourses := False\<rparr>)))"

text \<open>
  The rendering of \<^verbatim>\<open>TimetablePage\<close>:
\<^verbatim>\<open>
  {loadingTimetable ? ( ... Loading timetable... )
   : timetableData ? ( ... days.map((day) => { const dayClasses =
                           timetableData.entries.filter(...) ... }) ... )
   : ( ... Failed to load timetable data ... )}
\<close>
  A document without \<^verbatim>\<open>entries\<close> is truthy, and the call of \<^verbatim>\<open>filter\<close> on \<open>undefined\<close>
  throws while rendering.
\<close>

datatype TimetableView = LoadingTimetable | WeekCards "DayCard list" | FailedToLoad

definition TimetablePage :: "AppState \<Rightarrow> js_error + TimetableView" where
  "TimetablePage s =
     (if loadingTimetable s then Inr LoadingTimetable
      else case timetableData s of
             JsonNull \<Rightarrow> Inr FailedToLoad
           | NoCollection \<Rightarrow> Inl TypeError
           | Dataset G \<Rightarrow> Inr (WeekCards (weeklyView G)))"

section \<open>Search\<close>

text \<open>\<^verbatim>\<open>field.includes(query)\<close>: the query occurs in the field as a contiguous piece.\<close>

fun includes_js :: "string \<Rightarrow> string \<Rightarrow> bool" where
  "includes_js [] query = (query = [])"
| "includes_js (c # cs) query = (prefix query (c # cs) \<or> includes_js cs query)"

text \<open>
  The two loops of \<^verbatim>\<open>handleSearch\<close>, with the array \<^verbatim>\<open>results\<close> that they push to:
\<^verbatim>\<open>
      for (const groupData of data.data) {
        if (selectedGroup && groupData.group.toLowerCase() !== selectedGroup.toLowerCase()) {
          continue;
        }
        for (const entry of groupData.entries) {
          const searchFields = [
            entry.course.course_name.toLowerCase(),
            entry.course.instructor.toLowerCase(),
            entry.room.toLowerCase(),
            entry.course.course_code.toLowerCase()
          ];
          if (searchFields.some(field => field.includes(query))) {
            results.push({ group: groupData.group, entry: entry });
          }
        }
      }
\<close>
\<close>

fun search_entries ::
  "string \<Rightarrow> string \<Rightarrow> ScheduleEntry list \<Rightarrow> SearchResult list \<Rightarrow> SearchResult list" where
  "search_entries query g [] results = results"
| "search_entries query g (entry # rest) results =
     (let searchFields =
            [toLowerCase (course_name (course entry)),
             toLowerCase (instructor (course entry)),
             toLowerCase (room entry),
             toLowerCase (course_code (course entry))]
      in if list_ex (\<lambda>field. includes_js field query) searchFields
         then search_entries query g rest
                (results @ [\<lparr>result_group = g, result_entry = entry\<rparr>])
         else search_entries query g rest results)"

fun search_groups ::
  "string option \<Rightarrow> string \<Rightarrow> GroupDataset list \<Rightarrow> SearchResult list \<Rightarrow> SearchResult list" where
  "search_groups sel query [] results = results"
| "search_groups sel query (groupData # rest) results =
     (if truthy sel \<and>
         (case sel of None \<Rightarrow> False
          | Some g \<Rightarrow> toLowerCase (group groupData) \<noteq> toLowerCase g)
      then search_groups sel query rest results
      else search_groups sel query rest
             (search_entries query (group groupData) (entries groupData) results))"

text \<open>
\<^verbatim>\<open>
  const handleSearch = async () => {
    if (!searchQuery.trim()) {
      setSearchResults([]);
      return;
    }
    setLoading(true);
    try {
      const response = await fetch(`${DATA_BASE_URL}/timetable.json`);
      const data = await response.json();
      const results = [];
      const query = searchQuery.toLowerCase();
      ... the two loops ...
      setSearchResults(results);
    } catch (error) {
      console.error("Error searching:", error);
      setSearchResults([]);
    }
    setLoading(false);
  };
\<close>
  The function reads \<^verbatim>\<open>searchQuery\<close> and \<^verbatim>\<open>selectedGroup\<close> from the render in which it
  was created (its closure) and suspends at the request. \<open>handleSearch_begin\<close> is the part
  before the request (the flag tells whether a request was issued) and \<open>handleSearch_end\<close>
  the part after it, run on the state of that later moment.
\<close>

record Closure =
  closure_query :: string
  closure_group :: "string option"

definition handleSearch_begin :: "Closure \<Rightarrow> AppState \<Rightarrow> AppState \<times> bool" where
  "handleSearch_begin c s =
     (if trim (closure_query c) = [] then (s\<lparr>searchResults := []\<rparr>, False)
      else (s\<lparr>loading := True\<rparr>, True))"

definition handleSearch_end ::
  "Closure \<Rightarrow> GroupDataset list fetched \<Rightarrow> AppState \<Rightarrow> js_error + AppState" where
  "handleSearch_end c response s =
     then_js
       (try_catch
          (then_js (fetch_json response) (\<lambda>data.
           then_js (collection data) (\<lambda>data_opt.
             case data_opt of
               None \<Rightarrow> Inl TypeError
             | Some groups \<Rightarrow>
                 Inr (s\<lparr>searchResults :=
                          search_groups (closure_group c) (toLowerCase (closure_query c))
                            groups []\<rparr>))))
          (\<lambda>error. Inr (s\<lparr>searchResults := []\<rparr>)))
       (\<lambda>s'. Inr (s'\<lparr>loading := False\<rparr>))"

text \<open>A whole call of \<^verbatim>\<open>handleSearch\<close> in a state that does not change while the request
  is under way.\<close>

definition handleSearch :: "GroupDataset list fetched \<Rightarrow> AppState \<Rightarrow> js_error + AppState" where
  "handleSearch response s =
     (let c = \<lparr>closure_query = searchQuery s, closure_group = selectedGroup s\<rparr>;
          (s1, issued) = handleSearch_begin c s
      in if issued then handleSearch_end c response s1 else Inr s1)"

text \<open>The search result in the words of the specification: the datasets that pass the
  group filter, in order, and within each the entries that match, in order, each tagged
  with its group. An entry matches when the lower-cased query is a contiguous piece of one
  of its four lower-cased fields.\<close>

definition group_kept :: "string option \<Rightarrow> GroupDataset \<Rightarrow> bool" where
  "group_kept sel g = (case sel of None \<Rightarrow> True | Some f \<Rightarrow> f = [] \<or> ci_equal (group g) f)"

definition entry_matches :: "string \<Rightarrow> ScheduleEntry \<Rightarrow> bool" where
  "entry_matches q e =
     (sublist (toLowerCase q) (toLowerCase (course_name (course e))) \<or>
      sublist (toLowerCase q) (toLowerCase (instructor (course e))) \<or>
      sublist (toLowerCase q) (toLowerCase (room e)) \<or>
      sublist (toLowerCase q) (toLowerCase (course_code (course e))))"

definition expected_results :: "string option \<Rightarrow> string \<Rightarrow> GroupDataset list \<Rightarrow> SearchResult list" where
  "expected_results sel q data =
     concat (map (\<lambda>g. map (\<lambda>e. \<lparr>result_group = group g, result_entry = e\<rparr>)
                         (filter (entry_matches q) (entries g)))
                 (filter (group_kept sel) data))"

text \<open>The state right after \<^verbatim>\<open>App\<close> mounts, for a stored group selection.\<close>

definition initial_state :: "string option \<Rightarrow> AppState" where
  "initial_state stored =
     \<lparr>currentPage = (if truthy stored then ''home'' else ''groupSelect''),
      selectedGroup = (if truthy stored then stored else None),
      timetableData = JsonNull, todayClasses = [],
      loading = False, loadingToday = False, loadingTimetable = False, loadingCourses = False,
      searchQuery = [], searchResults = [], courses = []\<rparr>"

text \<open>
  The rendering of \<^verbatim>\<open>SearchPage\<close> below the input box:
\<^verbatim>\<open>
  {loading ? ( ... Searching... )
   : searchResults.length > 0 ? ( ... searchResults.map(...) ... )
   : searchQuery ? ( ... No results found for "{searchQuery}" ... )
   : ( ... Start typing to search for classes... )}
\<close>
  A string used as a condition is true when it is not empty.
\<close>

datatype SearchView = Searching | ResultList "SearchResult list" | NoResultsFor string | StartTyping

definition SearchPage :: "AppState \<Rightarrow> SearchView" where
  "SearchPage s =
     (if loading s then Searching
      else if length (searchResults s) > 0 then ResultList (searchResults s)
      else if searchQuery s \<noteq> [] then NoResultsFor (searchQuery s)
      else StartTyping)"

section \<open>The event loop around the search state\<close>

text \<open>
  Besides the state cells the running application holds the pending debounce timer, whose
  callback closes over the render that started it, and the calls of \<^verbatim>\<open>handleSearch\<close>
  that wait for their request.
\<close>

record World =
  app :: AppState
  timer :: "Closure option"
  inflight :: "Closure list"

text \<open>
\<^verbatim>\<open>
  useEffect(() => {
    if (currentPage !== "search") {
      // Clear search results when leaving search page
      setSearchResults([]);
      return;
    }
    const timeoutId = setTimeout(() => {
      if (searchQuery.trim()) { handleSearch(); } else { setSearchResults([]); }
    }, 300);
    return () => clearTimeout(timeoutId);
  }, [searchQuery, currentPage]);
\<close>
  The effect runs after a render in which \<^verbatim>\<open>searchQuery\<close> or \<^verbatim>\<open>currentPage\<close> has
  changed: first the cleanup of its previous run (which clears the timer of that run),
  then its body.
\<close>

definition searchEffect :: "World \<Rightarrow> World" where
  "searchEffect w =
     (let w1 = w\<lparr>timer := None\<rparr>
      in if currentPage (app w1) \<noteq> ''search''
         then w1\<lparr>app := (app w1)\<lparr>searchResults := []\<rparr>\<rparr>
         else w1\<lparr>timer := Some \<lparr>closure_query = searchQuery (app w1),
                                 closure_group = selectedGroup (app w1)\<rparr>\<rparr>)"

text \<open>\<^verbatim>\<open>setCurrentPage(p)\<close>: a state setter called with the value the cell already holds
  causes no render and no effect.\<close>

definition setCurrentPage :: "string \<Rightarrow> World \<Rightarrow> World" where
  "setCurrentPage p w =
     (if currentPage (app w) = p then w
      else searchEffect (w\<lparr>app := (app w)\<lparr>currentPage := p\<rparr>\<rparr>))"

definition setSearchQuery :: "string \<Rightarrow> World \<Rightarrow> World" where
  "setSearchQuery q w =
     (if searchQuery (app w) = q then w
      else searchEffect (w\<lparr>app := (app w)\<lparr>searchQuery := q\<rparr>\<rparr>))"

text \<open>The callback of the timer, run when the 300 ms have passed.\<close>

definition timerCallback :: "Closure \<Rightarrow> World \<Rightarrow> World" where
  "timerCallback c w =
     (if trim (closure_query c) \<noteq> []
      then (let (s1, issued) = handleSearch_begin c (app w)
            in w\<lparr>app := s1, inflight := (if issued then inflight w @ [c] else inflight w)\<rparr>)
      else w\<lparr>app := (app w)\<lparr>searchResults := []\<rparr>\<rparr>)"

text \<open>
  The events that touch the search state: a click in the navigation bar (which is shown on
  every page but the group page and has the five entries \<open>nav_pages\<close>), typing in the
  search box (which exists on the search page only), choosing a group on the group page
  (the group effect then goes to the home page), the "Switch" button of the header
  (\<^verbatim>\<open>setSelectedGroup(null); setCurrentPage("groupSelect")\<close>; the header is shown on every
  page but the group page, the button when a group is selected), the debounce timer firing,
  and the request of the \<open>i\<close>-th waiting search settling with some outcome.
\<close>

datatype event =
    Navigate string
  | Type string
  | SelectGroup string
  | SwitchGroup
  | TimerFires
  | RequestSettles nat "GroupDataset list fetched"

definition nav_pages :: "string list" where
  "nav_pages = [''home'', ''timetable'', ''courses'', ''search'', ''admin'']"

fun step :: "event \<Rightarrow> World \<Rightarrow> World option" where
  "step (Navigate p) w =
     (if currentPage (app w) \<noteq> ''groupSelect'' \<and> p \<in> set nav_pages
      then Some (setCurrentPage p w) else None)"
| "step (Type q) w =
     (if currentPage (app w) = ''search'' then Some (setSearchQuery q w) else None)"
| "step (SelectGroup g) w =
     (if currentPage (app w) = ''groupSelect'' \<and> g \<noteq> [] \<and> selectedGroup (app w) \<noteq> Some g
      then Some (setCurrentPage ''home'' (w\<lparr>app := (app w)\<lparr>selectedGroup := Some g\<rparr>\<rparr>))
      else None)"
| "step SwitchGroup w =
     (if currentPage (app w) \<noteq> ''groupSelect'' \<and> truthy (selectedGroup (app w))
      then Some (setCurrentPage ''groupSelect'' (w\<lparr>app := (app w)\<lparr>selectedGroup := None\<rparr>\<rparr>))
      else None)"
| "step TimerFires w =
     (case timer w of
        None \<Rightarrow> None
      | Some c \<Rightarrow> Some (timerCallback c (w\<lparr>timer := None\<rparr>)))"
| "step (RequestSettles i response) w =
     (if i < length (inflight w) then
        (case handleSearch_end (inflight w ! i) response (app w) of
           Inl error \<Rightarrow> None
         | Inr s' \<Rightarrow> Some (w\<lparr>app := s', inflight := take i (inflight w) @ drop (Suc i) (inflight w)\<rparr>))
      else None)"

text \<open>A run of events; \<open>None\<close> when an event is not possible in the state it meets.\<close>

fun run :: "event list \<Rightarrow> World \<Rightarrow> World option" where
  "run [] w = Some w"
| "run (e # es) w = (case step e w of None \<Rightarrow> None | Some w' \<Rightarrow> run es w')"

definition initial_world :: "string option \<Rightarrow> World" where
  "initial_world stored = \<lparr>app = initial_state stored, timer = None, inflight = []\<rparr>"

text \<open>Away from the search page with nothing of a search left: no request waiting, no
  timer, no results.\<close>

definition away_quiet :: "World \<Rightarrow> bool" where
  "away_quiet w =
     (currentPage (app w) \<noteq> ''search'' \<and> inflight w = [] \<and> timer w = None \<and>
      searchResults (app w) = [])"

text \<open>The timetable document of the examples, with one group and two rooms.\<close>

definition sample_timetable :: "GroupDataset list" where
  "sample_timetable =
     [\<lparr>group = ''A'',
       entries = [sample_entry ''Monday'' ''09:00'' ''10:00'' ''Room 204'',
                  sample_entry ''Monday'' ''11:00'' ''12:00'' ''Room 205'']\<rparr>,
      \<lparr>group = ''B'',
       entries = [sample_entry ''Tuesday'' ''09:00'' ''10:00'' ''Room 204'']\<rparr>]"

text \<open>The world of the examples: group A selected, the search page open, the query
  \<^verbatim>\<open>room 204\<close> typed and its debounce timer pending, no request under way.\<close>

definition searching_world :: World where
  "searching_world =
     \<lparr>app = (initial_state (Some ''A''))\<lparr>currentPage := ''search'', searchQuery := ''room 204''\<rparr>,
      timer = Some \<lparr>closure_query = ''room 204'', closure_group = Some ''A''\<rparr>,
      inflight = []\<rparr>"

section \<open>Facts about the string and number primitives\<close>

lemma digit_facts:
  assumes "isDigit c"
  shows "\<not> isWhiteSpace c" "c \<noteq> CHR ''+''" "c \<noteq> CHR ''-''"
    "c \<noteq> CHR ''e''" "c \<noteq> CHR ''E''" "c \<noteq> CHR '':''"
  using assms by (auto simp: isDigit_def isWhiteSpace_def)

lemma split_hhmm:
  assumes "isDigit a" "isDigit b" "isDigit c" "isDigit d"
  shows "split CHR '':'' [a, b, CHR '':'', c, d] = [[a, b], [c, d]]"
  using assms by (simp add: digit_facts)

lemma Number_js_two_digits:
  assumes "isDigit a" "isDigit b"
  shows "Number_js [a, b] = Fin (of_nat (10 * digit_val a + digit_val b))"
proof -
  have t: "trim [a, b] = [a, b]"
    using assms by (simp add: trim_def digit_facts)
  have n: "NonDecimalIntegerLiteral [a, b] = None"
    by (simp add: NonDecimalIntegerLiteral_def)
  have m: "parse_mantissa [a, b] = Some (of_nat (10 * digit_val a + digit_val b))"
    using assms by (simp add: parse_mantissa_def digits_value_def)
  have u: "StrUnsignedDecimalLiteral [a, b] = Fin (of_nat (10 * digit_val a + digit_val b))"
    using assms m by (simp add: StrUnsignedDecimalLiteral_def digit_facts)
  show ?thesis
    using assms t n u by (simp add: Number_js_def digit_facts)
qed

lemma hhmm_cases:
  assumes "is_hhmm s"
  obtains a b c d where "s = [a, b, CHR '':'', c, d]"
    and "isDigit a" and "isDigit b" and "isDigit c" and "isDigit d"
  using assms unfolding is_hhmm_def by (auto split: list.splits)

lemma parsed_minutes_hhmm:
  assumes "is_hhmm s"
  shows "parsed_minutes s = Fin (of_nat (hhmm_minutes s))"
proof -
  from assms obtain a b c d where s: "s = [a, b, CHR '':'', c, d]"
    and d: "isDigit a" "isDigit b" "isDigit c" "isDigit d"
    by (rule hhmm_cases)
  have "split CHR '':'' s = [[a, b], [c, d]]"
    unfolding s using d by (rule split_hhmm)
  then have "map Number_js (split CHR '':'' s) =
        [Fin (of_nat (10 * digit_val a + digit_val b)), Fin (of_nat (10 * digit_val c + digit_val d))]"
    using d by (simp add: Number_js_two_digits)
  then show ?thesis
    by (simp add: parsed_minutes_def element_def ToNumber_def hhmm_minutes_def s)
qed

lemma isCurrentClass_parsed:
  "isCurrentClass now startTime endTime =
     (js_ge (Fin (of_nat (getHours now * 60 + getMinutes now))) (parsed_minutes startTime) \<and>
      js_le (Fin (of_nat (getHours now * 60 + getMinutes now))) (parsed_minutes endTime))"
  by (simp add: isCurrentClass_def parsed_minutes_def Let_def)

lemma js_le_NaN [simp]: "js_le x NaN = False"
  by (cases x) simp_all

lemma js_lt_NaN [simp]: "js_lt x NaN = False"
  by (cases x) simp_all

lemma js_mul_NaN [simp]: "js_mul x NaN = NaN"
  by (cases x) simp_all

lemma js_add_NaN [simp]: "js_add x NaN = NaN"
  by (cases x) simp_all

lemma parsed_minutes_no_colon:
  assumes "CHR '':'' \<notin> set t"
  shows "parsed_minutes t = NaN"
proof -
  have "split CHR '':'' t = [t]"
    using assms by (induction t) auto
  then show ?thesis
    by (simp add: parsed_minutes_def element_def ToNumber_def)
qed

lemma parsed_minutes_NaN_part:
  assumes "NaN \<in> set (take 2 (map Number_js (split CHR '':'' t)))"
  shows "parsed_minutes t = NaN"
proof (cases "map Number_js (split CHR '':'' t)")
  case Nil
  with assms show ?thesis by simp
next
  case (Cons h rest)
  show ?thesis
  proof (cases rest)
    case Nil
    then show ?thesis
      using Cons by (simp add: parsed_minutes_def element_def ToNumber_def)
  next
    case (Cons m more)
    with \<open>map Number_js (split CHR '':'' t) = h # rest\<close> assms
    have "h = NaN \<or> m = NaN" by auto
    then show ?thesis
      using Cons \<open>map Number_js (split CHR '':'' t) = h # rest\<close>
      by (auto simp: parsed_minutes_def element_def ToNumber_def)
  qed
qed

section \<open>Live indicator\<close>

text \<open>
  Claim C4. For all well-formed "HH:MM" strings \<open>startTime\<close> and \<open>endTime\<close> and every clock
  reading, \<open>isCurrentClass\<close> is true exactly when the current time in minutes since
  midnight lies in the inclusive range from the start minutes to the end minutes.
\<close>

theorem isCurrentClass_inclusive_range:
  assumes "is_hhmm startTime" and "is_hhmm endTime"
  shows "isCurrentClass now startTime endTime \<longleftrightarrow>
           hhmm_minutes startTime \<le> getHours now * 60 + getMinutes now \<and>
           getHours now * 60 + getMinutes now \<le> hhmm_minutes endTime"
  using assms
  by (simp add: isCurrentClass_parsed parsed_minutes_hhmm js_ge_def del: of_nat_add of_nat_mult)

text \<open>The instances of the specification: with the slot 09:00 to 10:30 the indicator is on
  at 09:00, 09:45 and 10:30 and off at 08:59 and 10:31.\<close>

theorem isCurrentClass_inclusive_range_witness:
  "is_hhmm ''09:00'' \<and> is_hhmm ''10:30'' \<and>
   isCurrentClass \<lparr>getHours = 9, getMinutes = 0\<rparr> ''09:00'' ''10:30'' \<and>
   isCurrentClass \<lparr>getHours = 9, getMinutes = 45\<rparr> ''09:00'' ''10:30'' \<and>
   isCurrentClass \<lparr>getHours = 10, getMinutes = 30\<rparr> ''09:00'' ''10:30'' \<and>
   \<not> isCurrentClass \<lparr>getHours = 8, getMinutes = 59\<rparr> ''09:00'' ''10:30'' \<and>
   \<not> isCurrentClass \<lparr>getHours = 10, getMinutes = 31\<rparr> ''09:00'' ''10:30''"
proof -
  have s: "is_hhmm ''09:00''" and e: "is_hhmm ''10:30''"
    by (simp_all add: is_hhmm_def isDigit_def)
  have v: "hhmm_minutes ''09:00'' = 540" "hhmm_minutes ''10:30'' = 630"
    by (simp_all add: hhmm_minutes_def digit_val_def)
  show ?thesis
    using s e by (simp add: isCurrentClass_inclusive_range [OF s e] v)
qed

text \<open>
  Claim C10, as stated, fails: a string that is not a well-formed "HH:MM" time can still
  parse to a number. \<^verbatim>\<open>":"\<close> splits into two empty pieces, \<^verbatim>\<open>Number("")\<close> is 0, so it
  denotes minute 0; \<^verbatim>\<open>"23:59:59"\<close> has its first two pieces read, minute 1439. With these
  two arguments the indicator is on at noon.
\<close>

theorem isCurrentClass_malformed_counterexample:
  "\<not> is_hhmm '':'' \<and> \<not> is_hhmm ''23:59:59'' \<and>
   isCurrentClass \<lparr>getHours = 12, getMinutes = 0\<rparr> '':'' ''23:59:59''"
  by (simp add: is_hhmm_def isCurrentClass_def Number_js_def trim_def isWhiteSpace_def
      NonDecimalIntegerLiteral_def StrUnsignedDecimalLiteral_def parse_mantissa_def
      isDigit_def digits_value_def digit_val_def element_def ToNumber_def js_ge_def)

text \<open>
  Claim C10, amended. \<open>isCurrentClass\<close> is false (and nothing is raised) whenever one of
  its two arguments has no colon, or has a piece among its first two that \<^verbatim>\<open>Number\<close>
  reads as \<open>NaN\<close>: the minute value of that argument is \<open>NaN\<close> and a comparison with
  \<open>NaN\<close> is false.
\<close>

theorem isCurrentClass_NaN_false:
  assumes "t = startTime \<or> t = endTime"
    and "CHR '':'' \<notin> set t \<or> NaN \<in> set (take 2 (map Number_js (split CHR '':'' t)))"
  shows "isCurrentClass now startTime endTime = False"
proof -
  have "parsed_minutes t = NaN"
    using assms(2) parsed_minutes_no_colon parsed_minutes_NaN_part by blast
  then show ?thesis
    using assms(1) by (auto simp: isCurrentClass_parsed js_ge_def)
qed

theorem isCurrentClass_NaN_false_witness:
  "CHR '':'' \<notin> set ''0900'' \<and>
   isCurrentClass \<lparr>getHours = 9, getMinutes = 30\<rparr> ''0900'' ''10:30'' = False \<and>
   NaN \<in> set (take 2 (map Number_js (split CHR '':'' ''09:xy''))) \<and>
   isCurrentClass \<lparr>getHours = 9, getMinutes = 30\<rparr> ''09:00'' ''09:xy'' = False"
proof -
  have a: "CHR '':'' \<notin> set ''0900''" by simp
  have b: "NaN \<in> set (take 2 (map Number_js (split CHR '':'' ''09:xy'')))"
    by (simp add: Number_js_def trim_def isWhiteSpace_def NonDecimalIntegerLiteral_def
        StrUnsignedDecimalLiteral_def parse_mantissa_def isDigit_def digits_value_def digit_val_def)
  show ?thesis
    using a b
      isCurrentClass_NaN_false [of "''0900''" "''0900''" "''10:30''" "\<lparr>getHours = 9, getMinutes = 30\<rparr>"]
      isCurrentClass_NaN_false [of "''09:xy''" "''09:00''" "''09:xy''" "\<lparr>getHours = 9, getMinutes = 30\<rparr>"]
    by blast
qed

section \<open>Facts about the home page derivations\<close>

lemma nextClass_find:
  "nextClass now xs = find (\<lambda>e. js_gt (start_minutes e) (clock_minutes now)) xs"
  by (simp add: nextClass_def start_minutes_def parsed_minutes_def clock_minutes_def Let_def)


lemma js_gt_le_refl: "js_gt a b \<Longrightarrow> js_le a a"
  unfolding js_gt_def by (cases a; cases b) simp_all


text \<open>For an entry with a well-formed start time the test of \<open>nextClass\<close> is the
  comparison of the minutes since midnight.\<close>

lemma start_after_clock_hhmm:
  assumes "is_hhmm (start_time (time_slot e))"
  shows "js_gt (start_minutes e) (clock_minutes now) \<longleftrightarrow>
           getHours now * 60 + getMinutes now < hhmm_minutes (start_time (time_slot e))"
  using assms
  by (simp add: start_minutes_def clock_minutes_def parsed_minutes_hhmm js_gt_def
      del: of_nat_add of_nat_mult)

lemma of_char_toLowerCase_char:
  "(of_char (toLowerCase_char c) :: nat) =
     (if (65 \<le> (of_char c :: nat) \<and> (of_char c :: nat) \<le> 90) \<or>
         (192 \<le> (of_char c :: nat) \<and> (of_char c :: nat) \<le> 222 \<and> (of_char c :: nat) \<noteq> 215)
      then of_char c + 32 else of_char c)"
  by (auto simp: toLowerCase_char_def Let_def)

lemma toLowerCase_char_eq_iff:
  "toLowerCase_char a = toLowerCase_char b \<longleftrightarrow> ci_char a b"
proof -
  have "toLowerCase_char a = toLowerCase_char b \<longleftrightarrow>
        (of_char (toLowerCase_char a) :: nat) = of_char (toLowerCase_char b)"
    by simp
  also have "\<dots> \<longleftrightarrow> ci_char a b"
    unfolding of_char_toLowerCase_char ci_char_def case_pair_def Let_def
    using of_char_eq_iff [of a b, where ?'a = nat]
    by (auto split: if_splits)
  finally show ?thesis .
qed

lemma toLowerCase_eq_iff: "toLowerCase s = toLowerCase t \<longleftrightarrow> ci_equal s t"
  unfolding toLowerCase_def ci_equal_def
proof (induction s arbitrary: t)
  case Nil
  then show ?case by auto
next
  case (Cons a s)
  then show ?case by (cases t) (auto simp: toLowerCase_char_eq_iff)
qed

text \<open>
  Claim C1. For every group dataset \<open>G\<close> and every weekday name \<open>d\<close>, the today's-classes
  derivation returns exactly the entries of \<open>G\<close> whose day equals \<open>d\<close> up to the case of
  letters, in the order they have in \<open>G\<close> (it is the filter of the entries by that test,
  hence a subsequence of them), and deriving again from its own result gives the same list.
\<close>

theorem todaysClasses_exact:
  "todaysClasses G d = filter (\<lambda>e. ci_equal (day e) d) (entries G) \<and>
   subseq (todaysClasses G d) (entries G) \<and>
   todaysClasses (G\<lparr>entries := todaysClasses G d\<rparr>) d = todaysClasses G d"
  by (simp add: todaysClasses_def toLowerCase_eq_iff)

lemma todaysClasses_example:
  "todaysClasses
     \<lparr>group = ''A'',
      entries = [sample_entry ''MONDAY'' ''14:00'' ''15:00'' ''Room 204'',
                 sample_entry ''Tuesday'' ''08:00'' ''09:00'' ''Room 204'',
                 sample_entry ''monday'' ''09:00'' ''10:00'' ''Room 205'']\<rparr> ''Monday'' =
   [sample_entry ''MONDAY'' ''14:00'' ''15:00'' ''Room 204'',
    sample_entry ''monday'' ''09:00'' ''10:00'' ''Room 205'']"
  by code_simp



text \<open>On a list that is sorted by the minute values the code computes, the first entry
  after the clock is also the least one after it.\<close>

lemma nextClass_first_later:
  assumes "sorted_wrt (\<lambda>a b. js_le (start_minutes a) (start_minutes b)) classes"
  shows "case nextClass now classes of
           None \<Rightarrow> \<forall>e \<in> set classes. \<not> js_gt (start_minutes e) (clock_minutes now)
         | Some e \<Rightarrow> e \<in> set classes \<and> js_gt (start_minutes e) (clock_minutes now) \<and>
             (\<forall>e' \<in> set classes. js_gt (start_minutes e') (clock_minutes now) \<longrightarrow>
                js_le (start_minutes e) (start_minutes e'))"
proof (cases "nextClass now classes")
  case None
  then have "\<forall>e \<in> set classes. \<not> js_gt (start_minutes e) (clock_minutes now)"
    by (simp add: nextClass_find find_None_iff)
  with None show ?thesis by simp
next
  case (Some e)
  let ?P = "\<lambda>e. js_gt (start_minutes e) (clock_minutes now)"
  from Some obtain i where i: "i < length classes" "?P (classes ! i)"
    "e = classes ! i" "\<forall>j<i. \<not> ?P (classes ! j)"
    by (auto simp: nextClass_find find_Some_iff)
  have "js_le (start_minutes e) (start_minutes e')" if "e' \<in> set classes" "?P e'" for e'
  proof -
    from that obtain k where k: "k < length classes" "e' = classes ! k"
      by (auto simp: in_set_conv_nth)
    with that i have "\<not> k < i" by auto
    then consider "k = i" | "i < k" by linarith
    then show ?thesis
    proof cases
      case 1
      with i k show ?thesis using js_gt_le_refl by blast
    next
      case 2
      with assms i k show ?thesis by (simp add: sorted_wrt_iff_nth_less)
    qed
  qed
  with i Some show ?thesis by simp
qed

text \<open>
  Claim C2. For every list of today's classes whose "HH:MM" start times are sorted ascending
  (by the minutes since midnight they denote) and every clock reading \<open>t\<close> in minutes
  since midnight, the next-class derivation returns an entry of the list whose start is
  strictly greater than \<open>t\<close> and is the smallest such start in the list; it returns
  nothing exactly when no entry has a start strictly greater than \<open>t\<close>.
\<close>

theorem nextClass_sorted:
  assumes "list_all (\<lambda>e. is_hhmm (start_time (time_slot e))) classes"
    and "sorted (map (\<lambda>e. hhmm_minutes (start_time (time_slot e))) classes)"
  shows "case nextClass now classes of
           None \<Rightarrow>
             \<forall>e \<in> set classes.
               hhmm_minutes (start_time (time_slot e)) \<le> getHours now * 60 + getMinutes now
         | Some e \<Rightarrow>
             e \<in> set classes \<and>
             getHours now * 60 + getMinutes now < hhmm_minutes (start_time (time_slot e)) \<and>
             (\<forall>e' \<in> set classes.
                getHours now * 60 + getMinutes now < hhmm_minutes (start_time (time_slot e')) \<longrightarrow>
                hhmm_minutes (start_time (time_slot e)) \<le> hhmm_minutes (start_time (time_slot e')))"
proof -
  let ?m = "\<lambda>e. hhmm_minutes (start_time (time_slot e))"
  let ?t = "getHours now * 60 + getMinutes now"
  have wf: "is_hhmm (start_time (time_slot e))" if "e \<in> set classes" for e
    using assms(1) that by (simp add: list_all_iff)
  have gt: "js_gt (start_minutes e) (clock_minutes now) \<longleftrightarrow> ?t < ?m e"
    if "e \<in> set classes" for e
    using wf [OF that] by (rule start_after_clock_hhmm)
  have le: "js_le (start_minutes a) (start_minutes b) \<longleftrightarrow> ?m a \<le> ?m b"
    if "a \<in> set classes" "b \<in> set classes" for a b
    using wf [OF that(1)] wf [OF that(2)]
    by (simp add: start_minutes_def parsed_minutes_hhmm)
  have "sorted_wrt (\<lambda>a b. ?m a \<le> ?m b) classes"
    using assms(2) by (simp add: sorted_map)
  then have "sorted_wrt (\<lambda>a b. js_le (start_minutes a) (start_minutes b)) classes"
    by (rule sorted_wrt_mono_rel [rotated]) (simp add: le)
  from nextClass_first_later [OF this, of now] show ?thesis
  proof (cases "nextClass now classes")
    case None
    assume "case nextClass now classes of
           None \<Rightarrow> \<forall>e \<in> set classes. \<not> js_gt (start_minutes e) (clock_minutes now)
         | Some e \<Rightarrow> e \<in> set classes \<and> js_gt (start_minutes e) (clock_minutes now) \<and>
             (\<forall>e' \<in> set classes. js_gt (start_minutes e') (clock_minutes now) \<longrightarrow>
                js_le (start_minutes e) (start_minutes e'))"
    with None have "\<forall>e \<in> set classes. \<not> js_gt (start_minutes e) (clock_minutes now)"
      by simp
    then have "\<forall>e \<in> set classes. ?m e \<le> ?t"
      using gt by (auto simp: not_less)
    with None show ?thesis by simp
  next
    case (Some e)
    assume "case nextClass now classes of
           None \<Rightarrow> \<forall>e \<in> set classes. \<not> js_gt (start_minutes e) (clock_minutes now)
         | Some e \<Rightarrow> e \<in> set classes \<and> js_gt (start_minutes e) (clock_minutes now) \<and>
             (\<forall>e' \<in> set classes. js_gt (start_minutes e') (clock_minutes now) \<longrightarrow>
                js_le (start_minutes e) (start_minutes e'))"
    with Some have e: "e \<in> set classes" "js_gt (start_minutes e) (clock_minutes now)"
      and least: "\<forall>e' \<in> set classes. js_gt (start_minutes e') (clock_minutes now) \<longrightarrow>
                js_le (start_minutes e) (start_minutes e')"
      by simp_all
    from e have "?t < ?m e"
      using gt by blast
    moreover have "?m e \<le> ?m e'" if "e' \<in> set classes" "?t < ?m e'" for e'
      using least that gt [OF that(1)] le [OF e(1) that(1)] by blast
    ultimately show ?thesis
      using Some e(1) by simp
  qed
qed

text \<open>Entries at 09:30 and 11:00: at 09:15 the next class is the one at 09:30 (15 minutes
  ahead, within the same hour), at 10:00 the one at 11:00, and at 11:00 there is none. The
  instance of the specification: entries at 09:00 and 11:00, clock at 10:00, next class
  the entry at 11:00.\<close>

theorem nextClass_sorted_witness:
  "list_all (\<lambda>e. is_hhmm (start_time (time_slot e)))
     [sample_entry ''Monday'' ''09:30'' ''10:30'' ''Room 204'',
      sample_entry ''Monday'' ''11:00'' ''12:00'' ''Room 205''] \<and>
   sorted (map (\<lambda>e. hhmm_minutes (start_time (time_slot e)))
     [sample_entry ''Monday'' ''09:30'' ''10:30'' ''Room 204'',
      sample_entry ''Monday'' ''11:00'' ''12:00'' ''Room 205'']) \<and>
   nextClass \<lparr>getHours = 9, getMinutes = 15\<rparr>
     [sample_entry ''Monday'' ''09:30'' ''10:30'' ''Room 204'',
      sample_entry ''Monday'' ''11:00'' ''12:00'' ''Room 205''] =
     Some (sample_entry ''Monday'' ''09:30'' ''10:30'' ''Room 204'') \<and>
   9 * 60 + 15 <
     hhmm_minutes (start_time (time_slot (sample_entry ''Monday'' ''09:30'' ''10:30'' ''Room 204''))) \<and>
   nextClass \<lparr>getHours = 10, getMinutes = 0\<rparr>
     [sample_entry ''Monday'' ''09:30'' ''10:30'' ''Room 204'',
      sample_entry ''Monday'' ''11:00'' ''12:00'' ''Room 205''] =
     Some (sample_entry ''Monday'' ''11:00'' ''12:00'' ''Room 205'') \<and>
   nextClass \<lparr>getHours = 11, getMinutes = 0\<rparr>
     [sample_entry ''Monday'' ''09:30'' ''10:30'' ''Room 204'',
      sample_entry ''Monday'' ''11:00'' ''12:00'' ''Room 205''] = None \<and>
   nextClass \<lparr>getHours = 10, getMinutes = 0\<rparr>
     [sample_entry ''Monday'' ''09:00'' ''10:00'' ''Room 204'',
      sample_entry ''Monday'' ''11:00'' ''12:00'' ''Room 205''] =
     Some (sample_entry ''Monday'' ''11:00'' ''12:00'' ''Room 205'')"
proof -
  let ?xs = "[sample_entry ''Monday'' ''09:30'' ''10:30'' ''Room 204'',
              sample_entry ''Monday'' ''11:00'' ''12:00'' ''Room 205'']"
  have h: "list_all (\<lambda>e. is_hhmm (start_time (time_slot e))) ?xs"
    by (simp add: sample_entry_def is_hhmm_def isDigit_def)
  have s: "sorted (map (\<lambda>e. hhmm_minutes (start_time (time_slot e))) ?xs)"
    by (simp add: sample_entry_def hhmm_minutes_def digit_val_def)
  have a: "nextClass \<lparr>getHours = 9, getMinutes = 15\<rparr> ?xs =
             Some (sample_entry ''Monday'' ''09:30'' ''10:30'' ''Room 204'')"
    by code_simp
  have b: "nextClass \<lparr>getHours = 10, getMinutes = 0\<rparr> ?xs =
             Some (sample_entry ''Monday'' ''11:00'' ''12:00'' ''Room 205'')"
    by code_simp
  have c: "nextClass \<lparr>getHours = 11, getMinutes = 0\<rparr> ?xs = None"
    by code_simp
  have d: "nextClass \<lparr>getHours = 10, getMinutes = 0\<rparr>
             [sample_entry ''Monday'' ''09:00'' ''10:00'' ''Room 204'',
              sample_entry ''Monday'' ''11:00'' ''12:00'' ''Room 205''] =
             Some (sample_entry ''Monday'' ''11:00'' ''12:00'' ''Room 205'')"
    by code_simp
  from nextClass_sorted [OF h s, of "\<lparr>getHours = 9, getMinutes = 15\<rparr>"] a
  have "9 * 60 + 15 <
     hhmm_minutes (start_time (time_slot (sample_entry ''Monday'' ''09:30'' ''10:30'' ''Room 204'')))"
    by simp
  with h s a b c d show ?thesis by blast
qed

section \<open>Facts about the weekly view\<close>

lemma localeCompare_le_iff: "localeCompare s t \<le> 0 \<longleftrightarrow> s \<le> t"
proof (induction s t rule: localeCompare.induct)
  case (4 a as b bs)
  then show ?case
    by (auto simp: less_char_def less_eq_char_def)
qed simp_all

lemma insort_js_insort_key:
  "insort_js (\<lambda>a b. localeCompare (f a) (f b)) x ys = insort_key f x ys"
  by (induction ys) (simp_all add: localeCompare_le_iff)

lemma sort_js_sort_key:
  "sort_js (\<lambda>a b. localeCompare (f a) (f b)) xs = sort_key f xs"
proof -
  have "insort_js (\<lambda>a b. localeCompare (f a) (f b)) = insort_key f"
    by (intro ext) (rule insort_js_insort_key)
  then show ?thesis
    by (simp add: sort_js_def sort_key_def)
qed

lemma weeklyView_rows:
  "weeklyView G =
     map (\<lambda>d. \<lparr>card_day = d,
                card_count = length (filter (\<lambda>e. day e = d) (entries G)),
                card_rows = sort_key (\<lambda>e. start_time (time_slot e))
                              (filter (\<lambda>e. day e = d) (entries G))\<rparr>) days"
  by (simp add: weeklyView_def Let_def sort_js_sort_key)

text \<open>
  Claim C5. For every group dataset (with "HH:MM" start times, as the data model has
  them), the weekly view has exactly five buckets, named Monday to Friday in that order;
  each bucket holds exactly the entries whose day is equal to its name, character for
  character, each as often as the dataset has it, and its rows are sorted ascending by
  \<open>start_time\<close> in the lexicographic order of strings (entries with equal start times
  keep their dataset order).
\<close>

theorem weeklyView_buckets:
  assumes "list_all (\<lambda>e. is_hhmm (start_time (time_slot e))) (entries G)"
  shows "map card_day (weeklyView G) =
           [''Monday'', ''Tuesday'', ''Wednesday'', ''Thursday'', ''Friday''] \<and>
         (\<forall>c \<in> set (weeklyView G).
            mset (card_rows c) = mset (filter (\<lambda>e. day e = card_day c) (entries G)) \<and>
            card_count c = length (card_rows c) \<and>
            sorted (map (\<lambda>e. start_time (time_slot e)) (card_rows c)) \<and>
            card_rows c = sort_key (\<lambda>e. start_time (time_slot e))
                            (filter (\<lambda>e. day e = card_day c) (entries G)))"
proof -
  have "map card_day (weeklyView G) = days"
    by (simp add: weeklyView_rows comp_def)
  then show ?thesis
    by (auto simp: weeklyView_rows days_def)
qed

text \<open>The instance of the specification: Monday entries at 14:00 and 09:00, in that order
  in the dataset, appear as 09:00 then 14:00; an entry for Saturday and one whose day is
  written \<open>monday\<close> appear in no bucket.\<close>

theorem weeklyView_buckets_witness:
  "list_all (\<lambda>e. is_hhmm (start_time (time_slot e)))
     (entries \<lparr>group = ''A'',
        entries = [sample_entry ''Monday'' ''14:00'' ''15:00'' ''Room 204'',
                   sample_entry ''Saturday'' ''10:00'' ''11:00'' ''Room 204'',
                   sample_entry ''monday'' ''08:00'' ''09:00'' ''Room 204'',
                   sample_entry ''Monday'' ''09:00'' ''10:00'' ''Room 205'']\<rparr>) \<and>
   map card_day (weeklyView \<lparr>group = ''A'',
        entries = [sample_entry ''Monday'' ''14:00'' ''15:00'' ''Room 204'',
                   sample_entry ''Saturday'' ''10:00'' ''11:00'' ''Room 204'',
                   sample_entry ''monday'' ''08:00'' ''09:00'' ''Room 204'',
                   sample_entry ''Monday'' ''09:00'' ''10:00'' ''Room 205'']\<rparr>) =
     [''Monday'', ''Tuesday'', ''Wednesday'', ''Thursday'', ''Friday''] \<and>
   map card_rows (weeklyView \<lparr>group = ''A'',
        entries = [sample_entry ''Monday'' ''14:00'' ''15:00'' ''Room 204'',
                   sample_entry ''Saturday'' ''10:00'' ''11:00'' ''Room 204'',
                   sample_entry ''monday'' ''08:00'' ''09:00'' ''Room 204'',
                   sample_entry ''Monday'' ''09:00'' ''10:00'' ''Room 205'']\<rparr>) =
     [[sample_entry ''Monday'' ''09:00'' ''10:00'' ''Room 205'',
       sample_entry ''Monday'' ''14:00'' ''15:00'' ''Room 204''], [], [], [], []]"
proof -
  let ?G = "\<lparr>group = ''A'',
        entries = [sample_entry ''Monday'' ''14:00'' ''15:00'' ''Room 204'',
                   sample_entry ''Saturday'' ''10:00'' ''11:00'' ''Room 204'',
                   sample_entry ''monday'' ''08:00'' ''09:00'' ''Room 204'',
                   sample_entry ''Monday'' ''09:00'' ''10:00'' ''Room 205'']\<rparr>"
  have h: "list_all (\<lambda>e. is_hhmm (start_time (time_slot e))) (entries ?G)"
    by (simp add: sample_entry_def is_hhmm_def isDigit_def)
  have r: "map card_rows (weeklyView ?G) =
     [[sample_entry ''Monday'' ''09:00'' ''10:00'' ''Room 205'',
       sample_entry ''Monday'' ''14:00'' ''15:00'' ''Room 204''], [], [], [], []]"
    by code_simp
  from weeklyView_buckets [OF h] h r show ?thesis by simp
qed

section \<open>Facts about the search\<close>

lemma includes_js_sublist: "includes_js s q \<longleftrightarrow> sublist q s"
  by (induction s) (simp_all add: sublist_Cons_right)

lemma search_entries_eq:
  "search_entries (toLowerCase q) g es results =
     results @ map (\<lambda>e. \<lparr>result_group = g, result_entry = e\<rparr>) (filter (entry_matches q) es)"
proof (induction es arbitrary: results)
  case Nil
  then show ?case by simp
next
  case (Cons e es)
  show ?case
  proof (cases "entry_matches q e")
    case True
    then show ?thesis
      using Cons.IH [of "results @ [\<lparr>result_group = g, result_entry = e\<rparr>]"]
      by (simp add: includes_js_sublist entry_matches_def)
  next
    case False
    then show ?thesis
      using Cons.IH [of results]
      by (simp add: includes_js_sublist entry_matches_def)
  qed
qed

lemma group_skipped_iff:
  "(truthy sel \<and> (case sel of None \<Rightarrow> False
                   | Some g \<Rightarrow> toLowerCase (group gd) \<noteq> toLowerCase g)) \<longleftrightarrow> \<not> group_kept sel gd"
  by (cases sel) (auto simp: truthy_def group_kept_def toLowerCase_eq_iff)

lemma search_groups_eq:
  "search_groups sel (toLowerCase q) data results = results @ expected_results sel q data"
proof (induction data arbitrary: results)
  case Nil
  then show ?case by (simp add: expected_results_def)
next
  case (Cons gd data)
  show ?case
  proof (cases "group_kept sel gd")
    case True
    then have "search_groups sel (toLowerCase q) (gd # data) results =
          search_groups sel (toLowerCase q) data
            (search_entries (toLowerCase q) (group gd) (entries gd) results)"
      by (simp add: group_skipped_iff)
    with True show ?thesis
      by (simp add: Cons.IH search_entries_eq expected_results_def)
  next
    case False
    then have "search_groups sel (toLowerCase q) (gd # data) results =
          search_groups sel (toLowerCase q) data results"
      by (simp add: group_skipped_iff)
    with False show ?thesis
      by (simp add: Cons.IH expected_results_def)
  qed
qed

lemma trim_room_204: "trim ''room 204'' \<noteq> []"
  by (simp add: trim_def isWhiteSpace_def)

text \<open>
  Claim C3, as stated, fails for a query that is not empty but consists of white space:
  \<^verbatim>\<open>handleSearch\<close> returns before it searches and sets the results to the empty list,
  although a blank is a piece of the room \<^verbatim>\<open>Room 204\<close>.
\<close>

theorem handleSearch_blank_query_counterexample:
  "'' '' \<noteq> [] \<and>
   entry_matches '' '' (sample_entry ''Monday'' ''09:00'' ''10:00'' ''Room 204'') \<and>
   handleSearch (Json (Dataset sample_timetable))
     ((initial_state (Some ''A''))\<lparr>currentPage := ''search'', searchQuery := '' ''\<rparr>) =
   Inr ((initial_state (Some ''A''))\<lparr>currentPage := ''search'', searchQuery := '' '',
          searchResults := []\<rparr>)"
  by code_simp

text \<open>
  Claim C3, amended. For every aggregate dataset, every query that is not empty after its
  surrounding white space is trimmed, and every optional group filter, the search skips
  exactly the datasets whose group differs from the filter up to case when a filter is set
  (\<open>null\<close> and the empty string are no filter), includes an entry, tagged with its group,
  exactly when the lower-cased query is a contiguous piece of its lower-cased course name,
  instructor, room or course code, and returns the results in dataset order and, within a
  dataset, in entry order.
\<close>

theorem handleSearch_results:
  assumes "trim (searchQuery s) \<noteq> []"
  shows "handleSearch (Json (Dataset data)) s =
           Inr (s\<lparr>loading := False,
                  searchResults := expected_results (selectedGroup s) (searchQuery s) data\<rparr>)"
  using assms
  by (simp add: handleSearch_def handleSearch_begin_def handleSearch_end_def then_js_def
      try_catch_def fetch_json_def collection_def
      search_groups_eq [where results = "[]", simplified])

text \<open>The instance of the specification: the query \<^verbatim>\<open>room 204\<close> finds the entry in
  \<^verbatim>\<open>Room 204\<close> and not the one in \<^verbatim>\<open>Room 205\<close>; with group A selected the entry of
  group B is skipped.\<close>

theorem handleSearch_results_witness:
  "trim (searchQuery ((initial_state (Some ''A''))\<lparr>searchQuery := ''room 204''\<rparr>)) \<noteq> [] \<and>
   handleSearch (Json (Dataset sample_timetable))
     ((initial_state (Some ''A''))\<lparr>searchQuery := ''room 204''\<rparr>) =
   Inr ((initial_state (Some ''A''))\<lparr>searchQuery := ''room 204'', loading := False,
          searchResults :=
            [\<lparr>result_group = ''A'',
              result_entry = sample_entry ''Monday'' ''09:00'' ''10:00'' ''Room 204''\<rparr>]\<rparr>)"
proof -
  let ?s = "(initial_state (Some ''A''))\<lparr>searchQuery := ''room 204''\<rparr>"
  have t: "trim (searchQuery ?s) \<noteq> []"
    by (simp add: trim_room_204)
  have e: "expected_results (selectedGroup ?s) (searchQuery ?s) sample_timetable =
             [\<lparr>result_group = ''A'',
               result_entry = sample_entry ''Monday'' ''09:00'' ''10:00'' ''Room 204''\<rparr>]"
    by code_simp
  from handleSearch_results [OF t, of sample_timetable] t e show ?thesis
    by simp
qed

text \<open>
  Claim C6 holds for the empty query and fails for a query of white space: once the
  debounce timer has fired, the page shows \<^verbatim>\<open>No results found for " "\<close>, the state of a
  query without matches, and not the "no query" state \<^verbatim>\<open>Start typing to search\<close>. The
  effect and \<^verbatim>\<open>handleSearch\<close> both test \<^verbatim>\<open>searchQuery.trim()\<close>; the page tests
  \<^verbatim>\<open>searchQuery\<close>.
\<close>

theorem SearchPage_blank_query:
  "map_option (SearchPage \<circ> app)
     (run [Navigate ''search''] (initial_world (Some ''A''))) = Some StartTyping \<and>
   map_option (SearchPage \<circ> app)
     (run [Navigate ''search'', Type '' '', TimerFires] (initial_world (Some ''A''))) =
     Some (NoResultsFor '' '') \<and>
   map_option (SearchPage \<circ> app)
     (run [Navigate ''search'', Type ''zzz'', TimerFires,
           RequestSettles 0 (Json (Dataset sample_timetable))] (initial_world (Some ''A''))) =
     Some (NoResultsFor ''zzz'')"
  by code_simp

lemma SearchPage_no_results:
  "SearchPage (s\<lparr>loading := False, searchResults := [], searchQuery := q\<rparr>) =
     (if q = [] then StartTyping else NoResultsFor q)"
  by (simp add: SearchPage_def)

section \<open>Facts about the fetch boundary\<close>

text \<open>Every fetch function returns normally, whatever the request gives.\<close>

lemma fetch_functions_return:
  "\<exists>s'. fetchTodayClasses r1 d s = Inr s'"
  "\<exists>s'. fetchTimetableData r1 s = Inr s'"
  "\<exists>s'. fetchCourses r2 s = Inr s'"
  "\<exists>s'. handleSearch r3 s = Inr s'"
  by (auto simp: fetchTodayClasses_def fetchTimetableData_def fetchCourses_def handleSearch_def
      handleSearch_begin_def handleSearch_end_def then_js_def try_catch_def fetch_json_def
      collection_def Let_def
      split: fetched.splits json_doc.splits option.splits)

text \<open>A rejected request, a body that is not JSON, and the document \<open>null\<close> leave the
  empty list, or the \<open>null\<close> document for the timetable.\<close>

lemma fetch_failures_give_empty:
  assumes "r1 \<in> {Rejected, NotJson, Json JsonNull}"
    and "r2 \<in> {Rejected, NotJson, Json JsonNull}"
    and "r3 \<in> {Rejected, NotJson, Json JsonNull}"
    and "truthy (selectedGroup s)" and "trim (searchQuery s) \<noteq> []"
  shows "fetchTodayClasses r1 d s = Inr (s\<lparr>loadingToday := False, todayClasses := []\<rparr>)"
    and "fetchTimetableData r1 s = Inr (s\<lparr>loadingTimetable := False, timetableData := JsonNull\<rparr>)"
    and "fetchCourses r2 s = Inr (s\<lparr>loadingCourses := False, courses := []\<rparr>)"
    and "handleSearch r3 s = Inr (s\<lparr>loading := False, searchResults := []\<rparr>)"
  using assms
  by (auto simp: fetchTodayClasses_def fetchTimetableData_def fetchCourses_def handleSearch_def
      handleSearch_begin_def handleSearch_end_def then_js_def try_catch_def fetch_json_def
      collection_def Let_def)

text \<open>A JSON document without its collection also leaves the empty list for today's
  classes, the courses and the search.\<close>

lemma fetch_missing_collection_gives_empty:
  assumes "truthy (selectedGroup s)" and "trim (searchQuery s) \<noteq> []"
  shows "fetchTodayClasses (Json NoCollection) d s =
           Inr (s\<lparr>loadingToday := False, todayClasses := []\<rparr>)"
    and "fetchCourses (Json NoCollection) s = Inr (s\<lparr>loadingCourses := False, courses := []\<rparr>)"
    and "handleSearch (Json NoCollection) s = Inr (s\<lparr>loading := False, searchResults := []\<rparr>)"
  using assms
  by (auto simp: fetchTodayClasses_def fetchCourses_def handleSearch_def
      handleSearch_begin_def handleSearch_end_def then_js_def try_catch_def fetch_json_def
      collection_def Let_def)

text \<open>
  Claim C7 fails for the weekly timetable when the dataset is missing from a response
  that is JSON (the body \<^verbatim>\<open>{}\<close>, for one): \<^verbatim>\<open>fetchTimetableData\<close> stores the document
  as it came instead of \<open>null\<close>, and \<^verbatim>\<open>TimetablePage\<close> then throws a \<open>TypeError\<close> while
  rendering. The sibling functions read the collection inside their \<^verbatim>\<open>try\<close> block, or
  fall back with \<^verbatim>\<open>data.courses || []\<close>.
\<close>

theorem fetchTimetableData_missing_entries:
  "fetchTimetableData (Json NoCollection)
     ((initial_state (Some ''A''))\<lparr>currentPage := ''timetable''\<rparr>) =
     Inr ((initial_state (Some ''A''))\<lparr>currentPage := ''timetable'',
            timetableData := NoCollection\<rparr>) \<and>
   TimetablePage ((initial_state (Some ''A''))\<lparr>currentPage := ''timetable'',
            timetableData := NoCollection\<rparr>) = Inl TypeError"
  by code_simp

section \<open>Facts about the event loop\<close>

lemma searching_world_reachable:
  "run [Navigate ''search'', Type ''room 204''] (initial_world (Some ''A'')) =
     Some searching_world"
  by code_simp

text \<open>
  Claim C8, as stated, fails: a search whose request is under way when the user leaves the
  search view is not cancelled. Here the query \<^verbatim>\<open>room 204\<close> is typed, the timer fires
  and the request starts; the user goes to the home page (the results are cleared, the
  request is still waiting); the request settles and writes its results; the user comes
  back without typing, and the page shows the results of the earlier search at once.
\<close>

theorem stale_results_counterexample:
  "map_option inflight
     (run [Navigate ''search'', Type ''room 204'', TimerFires, Navigate ''home'']
        (initial_world (Some ''A''))) =
     Some [\<lparr>closure_query = ''room 204'', closure_group = Some ''A''\<rparr>] \<and>
   map_option (searchResults \<circ> app)
     (run [Navigate ''search'', Type ''room 204'', TimerFires, Navigate ''home'']
        (initial_world (Some ''A''))) = Some [] \<and>
   map_option (SearchPage \<circ> app)
     (run [Navigate ''search'', Type ''room 204'', TimerFires, Navigate ''home'',
           RequestSettles 0 (Json (Dataset sample_timetable)), Navigate ''search'']
        (initial_world (Some ''A''))) =
     Some (ResultList
       [\<lparr>result_group = ''A'',
         result_entry = sample_entry ''Monday'' ''09:00'' ''10:00'' ''Room 204''\<rparr>])"
  by code_simp

lemma searchEffect_away:
  assumes "currentPage (app w) \<noteq> ''search''"
  shows "timer (searchEffect w) = None" "searchResults (app (searchEffect w)) = []"
    "inflight (searchEffect w) = inflight w" "currentPage (app (searchEffect w)) = currentPage (app w)"
  using assms by (simp_all add: searchEffect_def Let_def)

lemma leaving_step:
  assumes "currentPage (app w) = ''search''" and "step e w = Some w1"
    and "currentPage (app w1) \<noteq> ''search''"
  shows "timer w1 = None \<and> searchResults (app w1) = [] \<and> inflight w1 = inflight w"
proof (cases e)
  case (Navigate p)
  with assms have "w1 = setCurrentPage p w" by (simp split: if_splits)
  with assms show ?thesis
    by (auto simp: setCurrentPage_def searchEffect_def Let_def split: if_splits)
next
  case (Type q)
  with assms have "w1 = setSearchQuery q w" by (simp split: if_splits)
  with assms show ?thesis
    by (auto simp: setSearchQuery_def searchEffect_def Let_def split: if_splits)
next
  case (SelectGroup g)
  with assms show ?thesis by simp
next
  case SwitchGroup
  with assms have "w1 = setCurrentPage ''groupSelect'' (w\<lparr>app := (app w)\<lparr>selectedGroup := None\<rparr>\<rparr>)"
    by (simp split: if_splits)
  with assms show ?thesis
    by (auto simp: setCurrentPage_def searchEffect_def Let_def split: if_splits)
next
  case TimerFires
  with assms show ?thesis
    by (auto simp: timerCallback_def handleSearch_begin_def split: option.splits if_splits)
next
  case (RequestSettles i r)
  with assms show ?thesis
    by (auto simp: handleSearch_end_def then_js_def try_catch_def fetch_json_def collection_def
        split: if_splits sum.splits fetched.splits json_doc.splits)
qed

lemma away_quiet_step:
  assumes "away_quiet w" and "step e w = Some w'" and "e \<noteq> Navigate ''search''"
  shows "away_quiet w'"
proof (cases e)
  case (Navigate p)
  with assms show ?thesis
    by (auto simp: away_quiet_def setCurrentPage_def searchEffect_def Let_def split: if_splits)
next
  case (Type q)
  with assms show ?thesis by (simp add: away_quiet_def)
next
  case (SelectGroup g)
  with assms show ?thesis
    by (auto simp: away_quiet_def setCurrentPage_def searchEffect_def Let_def split: if_splits)
next
  case SwitchGroup
  with assms show ?thesis
    by (auto simp: away_quiet_def setCurrentPage_def searchEffect_def Let_def split: if_splits)
next
  case TimerFires
  with assms show ?thesis by (simp add: away_quiet_def)
next
  case (RequestSettles i r)
  with assms show ?thesis by (simp add: away_quiet_def)
qed

lemma away_quiet_run:
  assumes "away_quiet w" and "run evs w = Some w'" and "Navigate ''search'' \<notin> set evs"
  shows "away_quiet w'"
  using assms
proof (induction evs arbitrary: w)
  case Nil
  then show ?case by simp
next
  case (Cons e evs)
  from Cons.prems obtain v where v: "step e w = Some v" "run evs v = Some w'"
    by (auto split: option.splits)
  with Cons.prems have "away_quiet v"
    using away_quiet_step [of w e v] by auto
  with Cons v show ?case by auto
qed

lemma away_quiet_return:
  assumes "away_quiet w" and "step (Navigate ''search'') w = Some w'"
  shows "searchResults (app w') = [] \<and> (\<forall>rs. SearchPage (app w') \<noteq> ResultList rs)"
proof -
  from assms have "w' = setCurrentPage ''search'' w"
    by (simp split: if_splits)
  with assms(1) have "searchResults (app w') = []"
    by (simp add: away_quiet_def setCurrentPage_def searchEffect_def Let_def)
  then show ?thesis
    by (simp add: SearchPage_def)
qed

text \<open>
  Claim C8, amended. Every step that leaves the search view clears the pending debounce
  timer and sets the displayed results to the empty list at once; the searches whose
  request is under way stay under way. When no request is under way at that moment, then
  through every later run of events that stays away from the search view the results stay
  empty, no timer and no request appear, and the step back into the search view starts
  with empty results: no result list is shown then (until the timer that this step starts
  runs the search for the query kept in the box).
\<close>

theorem leaving_search_view:
  assumes "currentPage (app w) = ''search''" and "step e w = Some w1"
    and "currentPage (app w1) \<noteq> ''search''"
  shows "timer w1 = None \<and> searchResults (app w1) = [] \<and> inflight w1 = inflight w \<and>
         (inflight w = [] \<longrightarrow>
            (\<forall>evs w2. Navigate ''search'' \<notin> set evs \<and> run evs w1 = Some w2 \<longrightarrow>
               searchResults (app w2) = [] \<and> timer w2 = None \<and> inflight w2 = [] \<and>
               (\<forall>w3. step (Navigate ''search'') w2 = Some w3 \<longrightarrow>
                  searchResults (app w3) = [] \<and> (\<forall>rs. SearchPage (app w3) \<noteq> ResultList rs))))"
proof -
  have l: "timer w1 = None \<and> searchResults (app w1) = [] \<and> inflight w1 = inflight w"
    using assms by (rule leaving_step)
  have "searchResults (app w2) = [] \<and> timer w2 = None \<and> inflight w2 = [] \<and>
        (\<forall>w3. step (Navigate ''search'') w2 = Some w3 \<longrightarrow>
           searchResults (app w3) = [] \<and> (\<forall>rs. SearchPage (app w3) \<noteq> ResultList rs))"
    if "inflight w = []" "Navigate ''search'' \<notin> set evs" "run evs w1 = Some w2" for evs w2
  proof -
    from l that(1) assms(3) have "away_quiet w1"
      by (simp add: away_quiet_def)
    then have q: "away_quiet w2"
      using that(3) that(2) by (rule away_quiet_run)
    then show ?thesis
      using away_quiet_return [OF q] by (simp add: away_quiet_def)
  qed
  with l show ?thesis by blast
qed

text \<open>From the search page with a pending timer and no request under way: to the home
  page, on to the courses page, and back to the search page.\<close>

theorem leaving_search_view_witness:
  "currentPage (app searching_world) = ''search'' \<and> inflight searching_world = [] \<and>
   step (Navigate ''home'') searching_world = Some (setCurrentPage ''home'' searching_world) \<and>
   currentPage (app (setCurrentPage ''home'' searching_world)) \<noteq> ''search'' \<and>
   timer (setCurrentPage ''home'' searching_world) = None \<and>
   searchResults (app (setCurrentPage ''home'' searching_world)) = [] \<and>
   run [Navigate ''courses''] (setCurrentPage ''home'' searching_world) =
     Some (setCurrentPage ''courses'' (setCurrentPage ''home'' searching_world)) \<and>
   step (Navigate ''search'') (setCurrentPage ''courses'' (setCurrentPage ''home'' searching_world)) =
     Some (setCurrentPage ''search''
             (setCurrentPage ''courses'' (setCurrentPage ''home'' searching_world))) \<and>
   searchResults (app (setCurrentPage ''search''
     (setCurrentPage ''courses'' (setCurrentPage ''home'' searching_world)))) = []"
proof -
  let ?w1 = "setCurrentPage ''home'' searching_world"
  let ?w2 = "setCurrentPage ''courses'' ?w1"
  let ?w3 = "setCurrentPage ''search'' ?w2"
  have a: "currentPage (app searching_world) = ''search''"
    and i: "inflight searching_world = []"
    by (simp_all add: searching_world_def)
  have b: "step (Navigate ''home'') searching_world = Some ?w1"
    by (simp add: a nav_pages_def)
  have p1: "currentPage (app ?w1) = ''home''"
    by (simp add: setCurrentPage_def searchEffect_def a)
  then have c: "currentPage (app ?w1) \<noteq> ''search''"
    by simp
  have p2: "currentPage (app ?w2) = ''courses''"
    by (simp add: setCurrentPage_def searchEffect_def p1)
  have r: "run [Navigate ''courses''] ?w1 = Some ?w2"
    by (simp add: p1 nav_pages_def)
  have s: "step (Navigate ''search'') ?w2 = Some ?w3"
    by (simp add: p2 nav_pages_def)
  have n: "Navigate ''search'' \<notin> set [Navigate ''courses'']"
    by simp
  from leaving_search_view [OF a b c] i n r s
  have "timer ?w1 = None \<and> searchResults (app ?w1) = [] \<and> searchResults (app ?w3) = []"
    by blast
  with a i b c r s show ?thesis by blast
qed

end
